theory Spec2Isabelle
  imports Main "HOL-Library.AList"
begin

section \<open>Exceptions\<close>

text \<open>
  Every exception the loader raises itself or lets through from a library call is a value.
  \<open>PrometheusNotFound\<close> carries its message and its \<open>__cause__\<close> (set by
  \<open>raise ... from e\<close>). \<open>ConnectionError\<close> stands for
  \<open>requests.exceptions.ConnectionError\<close> and its subclasses (class name and text),
  \<open>HTTPError\<close> for \<open>requests.exceptions.HTTPError\<close>, \<open>LibraryError\<close> for any other
  exception a library call raises (class name and text).
\<close>

datatype exn =
    PrometheusNotFound string "exn option"
  | ValueError string
  | AttributeError string
  | IndexError string
  | ConnectionError string string
  | HTTPError string
  | LibraryError string string

fun class_name :: "exn \<Rightarrow> string" where
  "class_name (PrometheusNotFound _ _) = ''PrometheusNotFound''"
| "class_name (ValueError _) = ''ValueError''"
| "class_name (AttributeError _) = ''AttributeError''"
| "class_name (IndexError _) = ''IndexError''"
| "class_name (ConnectionError c _) = c"
| "class_name (HTTPError _) = ''HTTPError''"
| "class_name (LibraryError c _) = c"

fun str_exn :: "exn \<Rightarrow> string" where
  "str_exn (PrometheusNotFound m _) = m"
| "str_exn (ValueError m) = m"
| "str_exn (AttributeError m) = m"
| "str_exn (IndexError m) = m"
| "str_exn (ConnectionError _ m) = m"
| "str_exn (HTTPError m) = m"
| "str_exn (LibraryError _ m) = m"

section \<open>Python values used by the loader\<close>

text \<open>\<open>str(n)\<close> for an integer: decimal digits, a minus sign for a negative one.\<close>

definition digit_char :: "nat \<Rightarrow> char" where
  "digit_char d = ''0123456789'' ! (d mod 10)"

fun str_nat :: "nat \<Rightarrow> string" where
  "str_nat n = (if n < 10 then [digit_char n] else str_nat (n div 10) @ [digit_char (n mod 10)])"

declare str_nat.simps [simp del]

definition str_int :: "int \<Rightarrow> string" where
  "str_int i = (if i < 0 then CHR ''-'' # str_nat (nat (- i)) else str_nat (nat i))"

text \<open>Truth value of an \<open>Optional[str]\<close>: \<open>None\<close> and the empty string are false.\<close>

fun truthy :: "string option \<Rightarrow> bool" where
  "truthy None = False"
| "truthy (Some s) = (s \<noteq> [])"

text \<open>\<open>xs[i]\<close> raises IndexError out of range.\<close>

definition py_getitem :: "'a list \<Rightarrow> nat \<Rightarrow> exn + 'a" where
  "py_getitem xs i =
     (if i < length xs then Inr (xs ! i) else Inl (IndexError ''list index out of range''))"

text \<open>
  A \<open>dict\<close> keeps insertion order, and storing under a key already present replaces the
  value in place: an association list with \<open>AList.update\<close>.
\<close>

type_synonym ('k, 'v) dict = "('k \<times> 'v) list"

section \<open>Data model\<close>

text \<open>
  \<open>K8sObjectData\<close>: the fields \<open>gather_data\<close> reads.
\<close>

record K8sObjectData =
  namespace :: string
  container :: string
  pods :: "string list"

text \<open>
  Modelled from the spec: \<open>ResourceType\<close> (robusta_krr.core.models.result) is the closed
  variant CPU, Memory. The annotation is not enforced at run time, so any other value a
  caller passes is \<open>Unknown\<close> with its printed form.
\<close>

datatype ResourceType = CPU | Memory | Unknown string

text \<open>
  A \<open>timedelta\<close> is a whole number of microseconds, possibly negative; a \<open>datetime\<close> is
  a number of microseconds since the epoch.
\<close>

type_synonym timedelta = int
type_synonym datetime = int

text \<open>
  \<open>int(td.total_seconds())\<close>: the seconds of the duration, truncated towards zero.
  (\<open>total_seconds\<close> is a float in Python; the truncation agrees with the exact one for
  durations shorter than \<open>2 ^ 34\<close> seconds.)
\<close>

definition int_total_seconds :: "timedelta \<Rightarrow> int" where
  "int_total_seconds td = (if td < 0 then - ((- td) div 1000000) else td div 1000000)"

text \<open>The arguments of one call of \<open>custom_query_range\<close>.\<close>

record range_request =
  query :: string
  start_time :: datetime
  end_time :: datetime
  step :: string

text \<open>
  One series of a range-query result: the \<open>metric\<close> labels and the \<open>values\<close> array of
  \<open>[timestamp, value]\<close> pairs, the value being a string.
\<close>

record 't series =
  metric :: "(string \<times> string) list"
  values_of :: "('t \<times> string) list"

text \<open>The arguments of the GET of the liveness check.\<close>

record http_request =
  get_url :: string
  verify :: bool
  get_headers :: "(string, string) dict"
  params :: "(string, string) dict"

text \<open>
  What the loader does outside the process, in the order it does it: a service-discovery
  lookup with its selectors, the creation of the HTTP session mounted at a URL, the GET of
  the liveness check, and a range query of \<open>gather_data\<close>.
\<close>

datatype event =
    FindUrl "string list"
  | CreateSession string
  | HttpGet http_request
  | RangeQuery range_request

text \<open>
  What \<open>gather_data\<close> calls outside the repository: the clock (\<open>now k\<close> is the k-th
  reading of \<open>datetime.now()\<close> during the call), the backend's range query, which returns
  the series or raises, and the \<open>Decimal\<close> constructor on strings.
\<close>

record ('t, 'd) gather_env =
  now :: "nat \<Rightarrow> datetime"
  custom_query_range :: "range_request \<Rightarrow> exn + 't series list"
  Decimal :: "string \<Rightarrow> exn + 'd"

section \<open>gather_data\<close>

definition cpu_query :: "K8sObjectData \<Rightarrow> string \<Rightarrow> string" where
  \<open>cpu_query object pod =
     ''sum(namespace_pod_name_container_name:container_cpu_usage_seconds_total:sum_rate{container_name="''
     @ container object @ ''", namespace="'' @ namespace object @ ''", pod_name="'' @ pod @ ''"})''\<close>

definition memory_query :: "K8sObjectData \<Rightarrow> string \<Rightarrow> string" where
  \<open>memory_query object pod =
     ''sum(container_memory_working_set_bytes{job="kubelet", metrics_path="/metrics/cadvisor", image!="", namespace="''
     @ namespace object @ ''", pod_name="'' @ pod @ ''", container_name="'' @ container object @ ''"})''\<close>

definition step_of :: "timedelta \<Rightarrow> string" where
  "step_of timeframe = str_int (int_total_seconds timeframe div 60) @ ''m''"

text \<open>
  The list comprehension over \<open>object.pods\<close>: for the pod at position \<open>i\<close> the clock is
  read twice, first for \<open>start_time\<close>, then for \<open>end_time\<close>.
\<close>

definition range_requests ::
  "(nat \<Rightarrow> datetime) \<Rightarrow> (string \<Rightarrow> string) \<Rightarrow> string list \<Rightarrow> timedelta \<Rightarrow> timedelta \<Rightarrow> range_request list"
where
  "range_requests clock mk_query ps period timeframe =
     map (\<lambda>(i, pod). \<lparr>query = mk_query pod, start_time = clock (2 * i) - period,
                       end_time = clock (2 * i + 1), step = step_of timeframe\<rparr>)
       (List.enumerate 0 ps)"

text \<open>
  \<open>asyncio.gather\<close> over the outcomes of the awaited calls. When none raised, the results
  come back in the order of the awaitables. Otherwise the exception of the call that
  failed first is raised: \<open>order\<close> lists the positions in the order in which the calls
  completed (positions it does not list complete last, in position order).
\<close>

definition asyncio_gather :: "nat list \<Rightarrow> (exn + 'a) list \<Rightarrow> exn + 'a list" where
  "asyncio_gather order outs =
     (case List.find (\<lambda>i. i < length outs \<and> isl (outs ! i)) (order @ [0..<length outs]) of
        Some i \<Rightarrow> Inl (projl (outs ! i))
      | None \<Rightarrow> Inr (map projr outs))"

text \<open>\<open>{pod: [] for pod in object.pods}\<close>\<close>

definition empty_for_all :: "string list \<Rightarrow> (string, 'd list) dict" where
  "empty_for_all ps = fold (\<lambda>pod d. AList.update pod [] d) ps []"

text \<open>\<open>{pod: result[i] for i, pod in enumerate(object.pods)}\<close>\<close>

fun pod_results_from ::
  "(nat \<times> string) list \<Rightarrow> 'r list \<Rightarrow> (string, 'r) dict \<Rightarrow> exn + (string, 'r) dict"
where
  "pod_results_from [] result d = Inr d"
| "pod_results_from ((i, pod) # rest) result d =
     (case py_getitem result i of
        Inl e \<Rightarrow> Inl e
      | Inr r \<Rightarrow> pod_results_from rest result (AList.update pod r d))"

text \<open>\<open>[Decimal(value) for _, value in values]\<close>\<close>

fun decimals :: "(string \<Rightarrow> exn + 'd) \<Rightarrow> ('t \<times> string) list \<Rightarrow> exn + 'd list" where
  "decimals dec [] = Inr []"
| "decimals dec ((_, v) # rest) =
     (case dec v of
        Inl e \<Rightarrow> Inl e
      | Inr x \<Rightarrow> (case decimals dec rest of Inl e \<Rightarrow> Inl e | Inr xs \<Rightarrow> Inr (x # xs)))"

text \<open>
  The final comprehension over \<open>pod_results.items()\<close>: an item whose result is \<open>[]\<close> is
  filtered out; for the others the values of the first series \<open>pod_result[0]\<close> are
  converted.
\<close>

fun extract_values ::
  "(string \<Rightarrow> exn + 'd) \<Rightarrow> (string \<times> 't series list) list \<Rightarrow> (string, 'd list) dict
     \<Rightarrow> exn + (string, 'd list) dict"
where
  "extract_values dec [] d = Inr d"
| "extract_values dec ((pod, pod_result) # rest) d =
     (case pod_result of
        [] \<Rightarrow> extract_values dec rest d
      | first # _ \<Rightarrow>
          (case decimals dec (values_of first) of
             Inl e \<Rightarrow> Inl e
           | Inr xs \<Rightarrow> extract_values dec rest (AList.update pod xs d)))"

text \<open>Lines 153 to 161: from the batch \<open>result\<close> to the returned mapping.\<close>

definition reshape ::
  "(string \<Rightarrow> exn + 'd) \<Rightarrow> string list \<Rightarrow> 't series list list \<Rightarrow> exn + (string, 'd list) dict"
where
  "reshape dec ps result =
     (if result = [] then Inr (empty_for_all ps)
      else case pod_results_from (List.enumerate 0 ps) result [] of
             Inl e \<Rightarrow> Inl e
           | Inr pod_results \<Rightarrow> extract_values dec pod_results [])"

text \<open>The per-pod queries of the batch and their outcomes.\<close>

definition batch_requests ::
  "('t, 'd) gather_env \<Rightarrow> K8sObjectData \<Rightarrow> ResourceType \<Rightarrow> timedelta \<Rightarrow> timedelta
     \<Rightarrow> range_request list"
where
  "batch_requests env object resource period timeframe =
     (case resource of
        CPU \<Rightarrow> range_requests (now env) (cpu_query object) (pods object) period timeframe
      | Memory \<Rightarrow> range_requests (now env) (memory_query object) (pods object) period timeframe
      | Unknown _ \<Rightarrow> [])"

definition batch_result ::
  "('t, 'd) gather_env \<Rightarrow> nat list \<Rightarrow> K8sObjectData \<Rightarrow> ResourceType \<Rightarrow> timedelta \<Rightarrow> timedelta
     \<Rightarrow> exn + 't series list list"
where
  "batch_result env order object resource period timeframe =
     asyncio_gather order
       (map (custom_query_range env) (batch_requests env object resource period timeframe))"

text \<open>
  \<open>gather_data\<close> returns the mapping or the exception, and the range queries it issued.
  Every awaitable of the batch is started before the first one completes, so all the
  queries of the batch are issued also when one of them fails.
\<close>

definition gather_data ::
  "('t, 'd) gather_env \<Rightarrow> nat list \<Rightarrow> K8sObjectData \<Rightarrow> ResourceType \<Rightarrow> timedelta \<Rightarrow> timedelta
     \<Rightarrow> (exn + (string, 'd list) dict) \<times> event list"
where
  "gather_data env order object resource period timeframe =
     (case resource of
        Unknown r \<Rightarrow> (Inl (ValueError (''Unknown resource type: '' @ r)), [])
      | _ \<Rightarrow>
          (case batch_result env order object resource period timeframe of
             Inl e \<Rightarrow> (Inl e, map RangeQuery (batch_requests env object resource period timeframe))
           | Inr result \<Rightarrow>
               (reshape (Decimal env) (pods object) result,
                map RangeQuery (batch_requests env object resource period timeframe))))"

section \<open>Construction of the loader\<close>

record Config =
  prometheus_url :: "string option"
  prometheus_auth_header :: "string option"
  prometheus_ssl_enabled :: bool
  inside_cluster :: bool

text \<open>
  \<open>requests.Response\<close>, as far as \<open>raise_for_status\<close> reads it.
\<close>

record response =
  status_code :: nat
  reason :: string
  response_url :: string

text \<open>
  What construction calls outside the repository. \<open>new_client_from_config\<close> (kubernetes)
  builds the API client of a context or raises; \<open>update_params_for_auth\<close> (kubernetes)
  returns the headers with the bearer token added or raises; \<open>session_get\<close> is the GET
  of the pooled session, which returns a response or raises.

  Modelled from the spec: \<open>ServiceDiscovery.find_url\<close> (robusta_krr.utils.service_discovery)
  is not part of the sources at hand; it tries the selectors in order and returns the first
  URL found, or none when no selector matches or cluster access is denied.
\<close>

record 'c init_env =
  new_client_from_config :: "string \<Rightarrow> exn + 'c"
  find_url :: "string list \<Rightarrow> 'c option \<Rightarrow> string option"
  update_params_for_auth :: "'c \<Rightarrow> (string, string) dict \<Rightarrow> exn + (string, string) dict"
  session_get :: "http_request \<Rightarrow> exn + response"

text \<open>\<open>PrometheusDiscovery.find_prometheus_url\<close>\<close>

definition selectors :: "string list" where
  "selectors = [''app=prometheus-operator-prometheus,release=prometheus'']"

definition find_prometheus_url :: "'c init_env \<Rightarrow> 'c option \<Rightarrow> string option" where
  "find_prometheus_url env api_client = find_url env selectors api_client"

text \<open>
  \<open>CustomPrometheusConnect\<close>: the fields of the connection that the loader reads. Its
  session is mounted at the URL with a pool of 10 connections that blocks when exhausted.
\<close>

record connection =
  conn_url :: string
  conn_headers :: "(string, string) dict"
  ssl_verification :: bool

definition CustomPrometheusConnect :: "string \<Rightarrow> bool \<Rightarrow> (string, string) dict \<Rightarrow> connection" where
  "CustomPrometheusConnect u disable_ssl hs =
     \<lparr>conn_url = u, conn_headers = hs, ssl_verification = (\<not> disable_ssl)\<rparr>"

text \<open>
  \<open>Response.raise_for_status\<close> (requests): an HTTPError for a status from 400 to 599,
  nothing otherwise.
\<close>

definition raise_for_status :: "response \<Rightarrow> exn + unit" where
  "raise_for_status r =
     (if 400 \<le> status_code r \<and> status_code r < 500
      then Inl (HTTPError (str_nat (status_code r) @ '' Client Error: '' @ reason r
                             @ '' for url: '' @ response_url r))
      else if 500 \<le> status_code r \<and> status_code r < 600
      then Inl (HTTPError (str_nat (status_code r) @ '' Server Error: '' @ reason r
                             @ '' for url: '' @ response_url r))
      else Inr ())"

text \<open>\<open>except (ConnectionError, HTTPError)\<close>\<close>

fun caught :: "exn \<Rightarrow> bool" where
  "caught (ConnectionError _ _) = True"
| "caught (HTTPError _) = True"
| "caught _ = False"

definition liveness_request :: "connection \<Rightarrow> http_request" where
  "liveness_request p =
     \<lparr>get_url = conn_url p @ ''/api/v1/query'', verify = ssl_verification p,
      get_headers = conn_headers p, params = [(''query'', ''example'')]\<rparr>"

definition not_connected_message :: "connection \<Rightarrow> exn \<Rightarrow> string" where
  "not_connected_message p e =
     ''Couldn't connect to Prometheus found under '' @ conn_url p @ [CHR 0x0A]
     @ ''Caused by '' @ class_name e @ '': '' @ str_exn e @ '')''"

definition check_prometheus_connection ::
  "'c init_env \<Rightarrow> connection \<Rightarrow> (exn + unit) \<times> event list"
where
  "check_prometheus_connection env p =
     (case (case session_get env (liveness_request p) of
              Inl e \<Rightarrow> Inl e
            | Inr response \<Rightarrow> raise_for_status response) of
        Inl e \<Rightarrow>
          (if caught e then Inl (PrometheusNotFound (not_connected_message p e) (Some e))
           else Inl e,
           [HttpGet (liveness_request p)])
      | Inr u \<Rightarrow> (Inr (), [HttpGet (liveness_request p)]))"

text \<open>\<open>cluster or 'default'\<close>\<close>

definition cluster_or_default :: "string option \<Rightarrow> string" where
  "cluster_or_default cluster =
     (case cluster of None \<Rightarrow> ''default'' | Some c \<Rightarrow> if c = [] then ''default'' else c)"

text \<open>Line 72: the API client of the cluster, none when no cluster is named.\<close>

definition make_api_client :: "'c init_env \<Rightarrow> string option \<Rightarrow> exn + 'c option" where
  "make_api_client env cluster =
     (case cluster of
        None \<Rightarrow> Inr None
      | Some c \<Rightarrow> (case new_client_from_config env c of Inl e \<Rightarrow> Inl e | Inr cl \<Rightarrow> Inr (Some cl)))"

record 'c PrometheusLoader =
  auth_header :: "string option"
  ssl_enabled :: bool
  api_client :: "'c option"
  url :: string
  prometheus :: connection

definition url_not_found :: "string option \<Rightarrow> exn" where
  "url_not_found cluster =
     PrometheusNotFound (''Prometheus url could not be found while scanning in ''
                          @ cluster_or_default cluster @ '' cluster'') None"

definition no_api_client :: exn where
  "no_api_client =
     AttributeError ([CHR 0x27] @ ''NoneType'' @ [CHR 0x27] @ '' object has no attribute ''
                      @ [CHR 0x27] @ ''update_params_for_auth'' @ [CHR 0x27])"

text \<open>
  \<open>PrometheusLoader.__init__\<close>: the loader or the exception, and what was done outside
  the process up to there.
\<close>

definition PrometheusLoader_init ::
  "'c init_env \<Rightarrow> Config \<Rightarrow> string option \<Rightarrow> (exn + 'c PrometheusLoader) \<times> event list"
where
  "PrometheusLoader_init env config cluster =
     (case make_api_client env cluster of
        Inl e \<Rightarrow> (Inl e, [])
      | Inr client \<Rightarrow>
          (let configured = truthy (prometheus_url config);
               found = (if configured then prometheus_url config
                        else find_prometheus_url env client);
               ev = (if configured then [] else [FindUrl selectors])
           in case found of
                None \<Rightarrow> (Inl (url_not_found cluster), ev)
              | Some u \<Rightarrow>
                  if u = [] then (Inl (url_not_found cluster), ev)
                  else
                    (case (case prometheus_auth_header config of
                             Some h \<Rightarrow>
                               if h \<noteq> [] then Inr [(''Authorization'', h)]
                               else if \<not> inside_cluster config
                               then (case client of
                                       None \<Rightarrow> Inl no_api_client
                                     | Some cl \<Rightarrow> update_params_for_auth env cl [])
                               else Inr []
                           | None \<Rightarrow>
                               if \<not> inside_cluster config
                               then (case client of
                                       None \<Rightarrow> Inl no_api_client
                                     | Some cl \<Rightarrow> update_params_for_auth env cl [])
                               else Inr []) of
                       Inl e \<Rightarrow> (Inl e, ev)
                     | Inr hs \<Rightarrow>
                         (let p = CustomPrometheusConnect u (\<not> prometheus_ssl_enabled config) hs
                          in case check_prometheus_connection env p of
                               (Inl e, ev') \<Rightarrow> (Inl e, ev @ [CreateSession u] @ ev')
                             | (Inr ok, ev') \<Rightarrow>
                                 (Inr \<lparr>auth_header = prometheus_auth_header config,
                                       ssl_enabled = prometheus_ssl_enabled config,
                                       api_client = client, url = u, prometheus = p\<rparr>,
                                  ev @ [CreateSession u] @ ev')))))"

section \<open>A fragment of the Decimal constructor\<close>

text \<open>
  Python's \<open>Decimal\<close> keeps a sign, a coefficient and an exponent: \<open>Decimal("0.5")\<close> is
  the coefficient 5 with the exponent -1. The examples below apply the constructor to plain
  literals \<open>[sign] digits [. digits]\<close> only; this fragment rejects every other string.
\<close>

record decimal =
  negative :: bool
  coefficient :: nat
  exponent :: int

definition digit_of :: "char \<Rightarrow> nat option" where
  "digit_of c =
     map_of [(CHR ''0'', 0), (CHR ''1'', 1), (CHR ''2'', 2), (CHR ''3'', 3), (CHR ''4'', 4),
             (CHR ''5'', 5), (CHR ''6'', 6), (CHR ''7'', 7), (CHR ''8'', 8), (CHR ''9'', 9)] c"

fun digits_value :: "string \<Rightarrow> nat \<Rightarrow> nat option" where
  "digits_value [] acc = Some acc"
| "digits_value (c # cs) acc =
     (case digit_of c of None \<Rightarrow> None | Some d \<Rightarrow> digits_value cs (10 * acc + d))"

definition Decimal_plain :: "string \<Rightarrow> exn + decimal" where
  "Decimal_plain s =
     (let neg = (take 1 s = ''-'');
          body = (if take 1 s = ''-'' \<or> take 1 s = ''+'' then drop 1 s else s);
          ip = takeWhile (\<lambda>c. c \<noteq> CHR ''.'') body;
          fp = drop 1 (dropWhile (\<lambda>c. c \<noteq> CHR ''.'') body)
      in if ip @ fp = [] then Inl (LibraryError ''InvalidOperation'' s)
         else case digits_value (ip @ fp) 0 of
                None \<Rightarrow> Inl (LibraryError ''InvalidOperation'' s)
              | Some n \<Rightarrow> Inr \<lparr>negative = neg, coefficient = n, exponent = - int (length fp)\<rparr>)"

section \<open>Example scenarios\<close>

text \<open>
  The workload of the scenario: namespace ns1, container c1, pods p1 and p2. The backend
  answers the CPU query of p1 with one series of two samples and every other query with an
  empty result; the failing backend raises a read timeout on every query but that of p1.
  The period is 30 days (2592000000000 microseconds), the timeframe 30 minutes
  (1800000000 microseconds).
\<close>

definition ex_object :: K8sObjectData where
  "ex_object = \<lparr>namespace = ''ns1'', container = ''c1'', pods = [''p1'', ''p2'']\<rparr>"

definition ex_series :: "nat series" where
  "ex_series = \<lparr>metric = [], values_of = [(1700000000, ''0.5''), (1700001800, ''0.7'')]\<rparr>"

definition ex_env :: "(nat, decimal) gather_env" where
  "ex_env = \<lparr>now = (\<lambda>k. 1700000000000000 + int k),
             custom_query_range = (\<lambda>req. if query req = cpu_query ex_object ''p1''
                                          then Inr [ex_series] else Inr []),
             Decimal = Decimal_plain\<rparr>"

definition ex_env_failing :: "(nat, decimal) gather_env" where
  "ex_env_failing = \<lparr>now = (\<lambda>k. 1700000000000000 + int k),
             custom_query_range = (\<lambda>req. if query req = cpu_query ex_object ''p1''
                                          then Inr [ex_series]
                                          else Inl (LibraryError ''ReadTimeout'' ''timed out'')),
             Decimal = Decimal_plain\<rparr>"

definition d05 :: decimal where
  "d05 = \<lparr>negative = False, coefficient = 5, exponent = - 1\<rparr>"

definition d07 :: decimal where
  "d07 = \<lparr>negative = False, coefficient = 7, exponent = - 1\<rparr>"

text \<open>
  Construction: a configuration with an explicit URL and auth header, one with neither
  (outside the cluster), and an environment whose liveness GET answers with the given
  status and whose service discovery returns the given URL.
\<close>

definition ex_config :: Config where
  "ex_config = \<lparr>prometheus_url = Some ''http://prom:9090'',
                 prometheus_auth_header = Some ''Bearer t'',
                 prometheus_ssl_enabled = False, inside_cluster = True\<rparr>"

definition ex_config_no_url :: Config where
  "ex_config_no_url = \<lparr>prometheus_url = None, prometheus_auth_header = None,
                        prometheus_ssl_enabled = False, inside_cluster = False\<rparr>"

definition ex_init_env :: "nat \<Rightarrow> string option \<Rightarrow> unit init_env" where
  "ex_init_env code found =
     \<lparr>new_client_from_config = (\<lambda>c. Inr ()),
      find_url = (\<lambda>sel cl. found),
      update_params_for_auth = (\<lambda>cl hs. Inr hs),
      session_get = (\<lambda>req. Inr \<lparr>status_code = code, reason = ''Internal Server Error'',
                                   response_url = get_url req @ ''?query=example''\<rparr>)\<rparr>"

definition ex_connection :: connection where
  "ex_connection = \<lparr>conn_url = ''http://prom:9090'',
                     conn_headers = [(''Authorization'', ''Bearer t'')],
                     ssl_verification = False\<rparr>"

definition ex_loader :: "unit PrometheusLoader" where
  "ex_loader = \<lparr>auth_header = Some ''Bearer t'', ssl_enabled = False, api_client = None,
                 url = ''http://prom:9090'', prometheus = ex_connection\<rparr>"

definition ex_loader_found :: "unit PrometheusLoader" where
  "ex_loader_found = \<lparr>auth_header = None, ssl_enabled = False, api_client = Some (),
                 url = ''http://found:9090'',
                 prometheus = \<lparr>conn_url = ''http://found:9090'', conn_headers = [],
                                ssl_verification = False\<rparr>\<rparr>"

definition ex_http_500 :: exn where
  "ex_http_500 =
     HTTPError ''500 Server Error: Internal Server Error for url: http://prom:9090/api/v1/query?query=example''"

definition ex_timeout :: exn where
  "ex_timeout = ConnectionError ''ConnectTimeout'' ''timed out''"

section \<open>Auxiliary facts\<close>

subsection \<open>asyncio.gather\<close>

lemma asyncio_gather_Nil: "asyncio_gather order [] = Inr []"
  by (simp add: asyncio_gather_def find_None_iff split: option.splits)

lemma asyncio_gather_Inr_iff:
  "asyncio_gather order outs = Inr rs \<longleftrightarrow> (\<forall>x \<in> set outs. \<not> isl x) \<and> rs = map projr outs"
proof -
  have "List.find (\<lambda>i. i < length outs \<and> isl (outs ! i)) (order @ [0..<length outs]) = None
          \<longleftrightarrow> (\<forall>x \<in> set outs. \<not> isl x)"
    by (fastforce simp: find_None_iff in_set_conv_nth)
  then show ?thesis
    by (auto simp: asyncio_gather_def split: option.splits)
qed

lemma asyncio_gather_Inl:
  assumes "asyncio_gather order outs = Inl e"
  shows "Inl e \<in> set outs"
proof -
  from assms obtain i where
    f: "List.find (\<lambda>i. i < length outs \<and> isl (outs ! i)) (order @ [0..<length outs]) = Some i"
    and e: "e = projl (outs ! i)"
    by (auto simp: asyncio_gather_def split: option.splits)
  from f have "i < length outs" "isl (outs ! i)"
    by (auto simp: find_Some_iff)
  then show ?thesis using e
    by (metis nth_mem sum.collapse(1))
qed

lemma asyncio_gather_fails:
  assumes "x \<in> set outs" "isl x"
  shows "\<exists>e. asyncio_gather order outs = Inl e \<and> Inl e \<in> set outs"
proof (cases "asyncio_gather order outs")
  case (Inl e)
  then show ?thesis using asyncio_gather_Inl by blast
next
  case (Inr rs)
  then show ?thesis using assms by (auto simp: asyncio_gather_Inr_iff)
qed

subsection \<open>The batch\<close>

lemma length_range_requests: "length (range_requests c q ps period tf) = length ps"
  by (simp add: range_requests_def)

lemma length_batch_requests:
  "resource = CPU \<or> resource = Memory \<Longrightarrow>
   length (batch_requests env object resource period timeframe) = length (pods object)"
  by (auto simp: batch_requests_def length_range_requests)

lemma batch_result_length:
  assumes "batch_result env order object resource period timeframe = Inr result"
    and "resource = CPU \<or> resource = Memory"
  shows "length result = length (pods object)"
  using assms by (auto simp: batch_result_def asyncio_gather_Inr_iff length_batch_requests)

lemma step_batch_requests:
  "req \<in> set (batch_requests env object resource period timeframe) \<Longrightarrow>
   step req = step_of timeframe"
  by (cases resource) (auto simp: batch_requests_def range_requests_def)

lemma gather_data_Inr:
  assumes "gather_data env order object resource period timeframe = (Inr m, tr)"
  shows "(resource = CPU \<or> resource = Memory) \<and>
    (\<exists>result. batch_result env order object resource period timeframe = Inr result \<and>
       reshape (Decimal env) (pods object) result = Inr m)"
  using assms by (cases resource) (auto simp: gather_data_def split: sum.splits)

subsection \<open>The dict comprehensions\<close>

lemma update_fresh: "k \<notin> fst ` set d \<Longrightarrow> AList.update k v d = d @ [(k, v)]"
  by (induction d) auto

lemma pod_results_from_fold:
  "n + length ps \<le> length result \<Longrightarrow>
   pod_results_from (List.enumerate n ps) result d =
     Inr (fold (\<lambda>(p, r). AList.update p r) (zip ps (drop n result)) d)"
proof (induction ps arbitrary: n d)
  case Nil
  then show ?case by simp
next
  case (Cons p ps)
  then have n: "n < length result" by simp
  then have d: "drop n result = result ! n # drop (Suc n) result"
    by (simp add: Cons_nth_drop_Suc)
  from Cons.prems have "Suc n + length ps \<le> length result" by simp
  from Cons.IH [OF this] show ?case using n
    by (simp add: py_getitem_def d)
qed

lemma fold_update_distinct:
  "distinct ps \<Longrightarrow> set ps \<inter> fst ` set d = {} \<Longrightarrow> length rs = length ps \<Longrightarrow>
   fold (\<lambda>(p, r). AList.update p r) (zip ps rs) d = d @ zip ps rs"
proof (induction ps arbitrary: rs d)
  case Nil
  then show ?case by simp
next
  case (Cons p ps)
  then obtain r rs' where rs: "rs = r # rs'" by (cases rs) auto
  have "fold (\<lambda>(p, r). AList.update p r) (zip ps rs') (d @ [(p, r)]) = (d @ [(p, r)]) @ zip ps rs'"
    using Cons.prems rs by (intro Cons.IH) auto
  then show ?case using Cons.prems rs by (simp add: update_fresh)
qed

lemma fold_update_keys_distinct:
  "distinct (map fst d) \<Longrightarrow> distinct (map fst (fold (\<lambda>(p, r). AList.update p r) kvs d))"
  by (induction kvs arbitrary: d) (auto simp: distinct_update split: prod.splits)

lemma fold_update_map_of:
  "map_of (fold (\<lambda>(p, r). AList.update p r) kvs d) = map_of d ++ map_of (rev kvs)"
  by (induction kvs arbitrary: d) (auto simp: update_conv' split: prod.splits)

lemma map_of_rev_zip_last:
  assumes "i < length ps" "length rs = length ps" "ps ! i \<notin> set (drop (Suc i) ps)"
  shows "map_of (rev (zip ps rs)) (ps ! i) = Some (rs ! i)"
proof -
  have z: "zip ps rs =
      zip (take i ps) (take i rs) @ (ps ! i, rs ! i) # zip (drop (Suc i) ps) (drop (Suc i) rs)"
    using assms(1,2)
    by (metis append_take_drop_id Cons_nth_drop_Suc length_take zip_append zip_Cons_Cons)
  have "ps ! i \<notin> fst ` set (zip (drop (Suc i) ps) (drop (Suc i) rs))"
    using assms(3) by (auto dest: set_zip_leftD)
  then have "map_of (rev (zip (drop (Suc i) ps) (drop (Suc i) rs))) (ps ! i) = None"
    by (simp add: map_of_eq_None_iff)
  then show ?thesis
    by (simp add: z map_add_def)
qed

lemma pod_results_facts:
  assumes "length result = length ps"
  defines "pr \<equiv> fold (\<lambda>(p, r). AList.update p r) (zip ps result) []"
  shows "distinct (map fst pr)"
    and "fst ` set pr \<subseteq> set ps"
    and "i < length ps \<Longrightarrow> ps ! i \<notin> set (drop (Suc i) ps) \<Longrightarrow>
           (ps ! i, r) \<in> set pr \<longleftrightarrow> r = result ! i"
    and "distinct ps \<Longrightarrow> pr = zip ps result"
proof -
  show d: "distinct (map fst pr)"
    unfolding pr_def by (rule fold_update_keys_distinct) simp
  have m: "map_of pr = map_of (rev (zip ps result))"
    unfolding pr_def by (simp add: fold_update_map_of)
  have "fst ` set pr = dom (map_of pr)" by (simp add: dom_map_of_conv_image_fst)
  also have "\<dots> = fst ` set (zip ps result)" by (simp add: m dom_map_of_conv_image_fst)
  also have "\<dots> \<subseteq> set ps" by (auto dest: set_zip_leftD)
  finally show "fst ` set pr \<subseteq> set ps" .
  show "(ps ! i, r) \<in> set pr \<longleftrightarrow> r = result ! i"
    if "i < length ps" "ps ! i \<notin> set (drop (Suc i) ps)"
  proof -
    have "map_of pr (ps ! i) = Some (result ! i)"
      using map_of_rev_zip_last [OF that(1) assms(1) that(2)] by (simp add: m)
    then have "(ps ! i, result ! i) \<in> set pr" by (rule map_of_SomeD)
    then show ?thesis using d by (auto dest: eq_key_imp_eq_value)
  qed
  show "pr = zip ps result" if "distinct ps"
    unfolding pr_def using fold_update_distinct [of ps "[]" result] that assms(1) by simp
qed

lemma empty_for_all_fold:
  "map_of (fold (\<lambda>pod d. AList.update pod [] d) ps d) pod =
     (if pod \<in> set ps then Some [] else map_of d pod)"
  by (induction ps arbitrary: d) (auto simp: update_conv')

lemma empty_for_all_keys:
  "fst ` set (fold (\<lambda>pod d. AList.update pod v d) ps d) = set ps \<union> fst ` set d"
  by (induction ps arbitrary: d) (auto simp: dom_update)

subsection \<open>Value extraction\<close>

lemma decimals_Inr_iff:
  "decimals dec vs = Inr xs \<longleftrightarrow> list_all2 (\<lambda>x tv. dec (snd tv) = Inr x) xs vs"
proof (induction vs arbitrary: xs)
  case Nil
  then show ?case by auto
next
  case (Cons a vs)
  obtain t v where a: "a = (t, v)" by (cases a)
  show ?case
    by (cases "dec v"; cases "decimals dec vs")
       (auto simp: a list_all2_Cons2 Cons.IH [symmetric])
qed

lemma extract_values_Inr:
  "extract_values dec items d = Inr m \<Longrightarrow> distinct (map fst d @ map fst items) \<Longrightarrow>
   \<exists>ys. m = d @ ys \<and>
     list_all2 (\<lambda>y it. fst y = fst it \<and>
                  (\<exists>s rest. snd it = s # rest \<and> decimals dec (values_of s) = Inr (snd y)))
       ys [it \<leftarrow> items. snd it \<noteq> []]"
proof (induction items arbitrary: d)
  case Nil
  then show ?case by simp
next
  case (Cons it items)
  obtain pod pod_result where it: "it = (pod, pod_result)" by (cases it)
  show ?case
  proof (cases pod_result)
    case Nil
    with Cons.prems it have "extract_values dec items d = Inr m"
      "distinct (map fst d @ map fst items)"
      by auto
    from Cons.IH [OF this] show ?thesis using Nil it by simp
  next
    case (Cons s rest)
    with Cons.prems(1) it obtain xs where xs: "decimals dec (values_of s) = Inr xs"
      and m: "extract_values dec items (AList.update pod xs d) = Inr m"
      by (auto split: sum.splits)
    have fresh: "pod \<notin> fst ` set d" using Cons.prems(2) it by auto
    then have u: "AList.update pod xs d = d @ [(pod, xs)]" by (rule update_fresh)
    have "distinct (map fst (d @ [(pod, xs)]) @ map fst items)"
      using Cons.prems(2) it by auto
    from Cons.IH [OF m [unfolded u] this] obtain ys where
      ys: "m = (d @ [(pod, xs)]) @ ys"
        "list_all2 (\<lambda>y it. fst y = fst it \<and>
                  (\<exists>s rest. snd it = s # rest \<and> decimals dec (values_of s) = Inr (snd y)))
           ys [it \<leftarrow> items. snd it \<noteq> []]"
      by blast
    show ?thesis
      by (rule exI [of _ "(pod, xs) # ys"]) (use ys xs it Cons in simp)
  qed
qed

lemma reshape_Inr:
  assumes "reshape dec ps result = Inr m" "length result = length ps"
  shows "list_all2 (\<lambda>y it. fst y = fst it \<and>
                  (\<exists>s rest. snd it = s # rest \<and> decimals dec (values_of s) = Inr (snd y)))
           m [it \<leftarrow> fold (\<lambda>(p, r). AList.update p r) (zip ps result) []. snd it \<noteq> []]"
proof (cases "result = []")
  case True
  then show ?thesis using assms by (simp add: reshape_def empty_for_all_def)
next
  case False
  let ?pr = "fold (\<lambda>(p, r). AList.update p r) (zip ps result) []"
  have "pod_results_from (List.enumerate 0 ps) result [] = Inr ?pr"
    using pod_results_from_fold [of 0 ps result "[]"] assms(2) by simp
  with assms(1) False have e: "extract_values dec ?pr [] = Inr m"
    by (simp add: reshape_def)
  have "distinct (map fst ?pr)"
    by (rule fold_update_keys_distinct) simp
  with extract_values_Inr [OF e] show ?thesis by simp
qed

lemma list_all2_keys:
  "list_all2 (\<lambda>y it. fst y = fst it \<and> Q y it) m its \<Longrightarrow> map fst m = map fst its"
  by (induction rule: list_all2_induct) auto

lemma list_all2_lookup:
  assumes "list_all2 (\<lambda>y it. fst y = fst it \<and> Q y it) m its" "distinct (map fst its)"
    and "it \<in> set its"
  shows "\<exists>v. map_of m (fst it) = Some v \<and> Q (fst it, v) it"
proof -
  from assms(3) obtain j where j: "j < length its" "its ! j = it"
    by (auto simp: in_set_conv_nth)
  from assms(1) j have l: "length m = length its" and q: "fst (m ! j) = fst it" "Q (m ! j) it"
    by (auto simp: list_all2_conv_all_nth)
  have "distinct (map fst m)" using list_all2_keys [OF assms(1)] assms(2) by simp
  moreover have "m ! j \<in> set m" using j l by simp
  ultimately have "map_of m (fst (m ! j)) = Some (snd (m ! j))"
    by (metis map_of_eq_Some_iff prod.collapse)
  then show ?thesis using q by (metis prod.collapse)
qed

subsection \<open>The scenarios, evaluated\<close>

lemmas ex_gather_defs = gather_data_def batch_result_def batch_requests_def range_requests_def
    asyncio_gather_def ex_env_def ex_env_failing_def ex_object_def ex_series_def cpu_query_def
    enumerate_eq_zip reshape_def py_getitem_def Decimal_plain_def digit_of_def d05_def d07_def

lemmas ex_init_defs = PrometheusLoader_init_def make_api_client_def ex_init_env_def ex_config_def
    ex_config_no_url_def find_prometheus_url_def check_prometheus_connection_def
    liveness_request_def CustomPrometheusConnect_def raise_for_status_def url_not_found_def
    cluster_or_default_def no_api_client_def ex_connection_def ex_loader_def ex_loader_found_def
    Let_def

lemma ex_gather:
  "fst (gather_data ex_env [] ex_object CPU 2592000000000 1800000000) = Inr [(''p1'', [d05, d07])]"
  by (simp add: ex_gather_defs)

lemma ex_batch:
  "batch_result ex_env [] ex_object CPU 2592000000000 1800000000 = Inr [[ex_series], []]"
  by (simp add: ex_gather_defs)

lemma ex_init_ok:
  "PrometheusLoader_init (ex_init_env 200 None) ex_config None =
     (Inr ex_loader, [CreateSession ''http://prom:9090'', HttpGet (liveness_request ex_connection)])"
  by (simp add: ex_init_defs)

lemma ex_init_found:
  "PrometheusLoader_init (ex_init_env 200 (Some ''http://found:9090'')) ex_config_no_url
       (Some ''prod'') =
     (Inr ex_loader_found,
      [FindUrl selectors, CreateSession ''http://found:9090'',
       HttpGet (liveness_request (prometheus ex_loader_found))])"
  by (simp add: ex_init_defs)

lemma check_events: "snd (check_prometheus_connection env p) = [HttpGet (liveness_request p)]"
  by (simp add: check_prometheus_connection_def split: sum.splits)

lemma str_int_0: "str_int 0 = ''0''"
  by (simp add: str_int_def str_nat.simps digit_char_def)

section \<open>Properties of gather_data\<close>

text \<open>
  C1, as stated: the returned mapping has as many keys as the object has pods, and a pod
  whose backend response is empty is mapped to an empty sequence. This fails in the
  scenario: the response for p2 is empty, and the mapping returned has the single key p1;
  p2 is absent from it.
\<close>

theorem gather_data_keys_counterexample:
  "fst (gather_data ex_env [] ex_object CPU 2592000000000 1800000000) = Inr [(''p1'', [d05, d07])]
   \<and> batch_result ex_env [] ex_object CPU 2592000000000 1800000000 = Inr [[ex_series], []]
   \<and> pods ex_object = [''p1'', ''p2'']
   \<and> map fst (projr (fst (gather_data ex_env [] ex_object CPU 2592000000000 1800000000))) = [''p1'']
   \<and> map_of (projr (fst (gather_data ex_env [] ex_object CPU 2592000000000 1800000000))) ''p2'' = None
   \<and> map_of (projr (fst (gather_data ex_env [] ex_object CPU 2592000000000 1800000000))) ''p2''
        \<noteq> Some []"
  by (simp add: ex_gather ex_batch) (simp add: ex_object_def)

text \<open>
  C1, amended. For every successful call of \<open>gather_data\<close> the batch holds one result per
  pod, the keys of the returned mapping are pairwise different pod names of the object, and
  a pod name is a key exactly when the backend response for it is not empty (for a name
  listed several times, the response of its last occurrence): a pod whose response is empty
  is absent. When the pod names are pairwise different, the keys are the pods with a
  non-empty response, in input order.
\<close>

theorem gather_data_keys:
  assumes "gather_data env order object resource period timeframe = (Inr m, tr)"
  shows "\<exists>result. batch_result env order object resource period timeframe = Inr result \<and>
     length result = length (pods object) \<and>
     distinct (map fst m) \<and> fst ` set m \<subseteq> set (pods object) \<and>
     (\<forall>i<length (pods object). pods object ! i \<notin> set (drop (Suc i) (pods object)) \<longrightarrow>
        (pods object ! i \<in> fst ` set m \<longleftrightarrow> result ! i \<noteq> [])) \<and>
     (distinct (pods object) \<longrightarrow>
        map fst m = map fst [it \<leftarrow> zip (pods object) result. snd it \<noteq> []])"
proof -
  let ?ps = "pods object"
  from gather_data_Inr [OF assms] obtain result where
    res: "resource = CPU \<or> resource = Memory"
      "batch_result env order object resource period timeframe = Inr result"
      "reshape (Decimal env) ?ps result = Inr m"
    by blast
  have len: "length result = length ?ps" using batch_result_length res by blast
  define pr where "pr = fold (\<lambda>(p, r). AList.update p r) (zip ?ps result) []"
  note pf = pod_results_facts [OF len, folded pr_def]
  have keys: "map fst m = map fst [it \<leftarrow> pr. snd it \<noteq> []]"
    using reshape_Inr [OF res(3) len] unfolding pr_def by (rule list_all2_keys)
  have 1: "distinct (map fst m)"
    unfolding keys using pf(1) by (rule distinct_map_filter)
  have ks: "fst ` set m = fst ` {it \<in> set pr. snd it \<noteq> []}"
    using arg_cong [OF keys, of set] by simp
  have 2: "fst ` set m \<subseteq> set ?ps"
    unfolding ks using pf(2) by auto
  have 3: "?ps ! i \<in> fst ` set m \<longleftrightarrow> result ! i \<noteq> []"
    if "i < length ?ps" "?ps ! i \<notin> set (drop (Suc i) ?ps)" for i
  proof
    assume "?ps ! i \<in> fst ` set m"
    then obtain r where "(?ps ! i, r) \<in> set pr" "r \<noteq> []"
      unfolding ks by auto
    then show "result ! i \<noteq> []" using pf(3) [OF that, of r] by simp
  next
    assume "result ! i \<noteq> []"
    moreover have "(?ps ! i, result ! i) \<in> set pr"
      using pf(3) [OF that, of "result ! i"] by simp
    ultimately have "(?ps ! i, result ! i) \<in> {it \<in> set pr. snd it \<noteq> []}" by simp
    then show "?ps ! i \<in> fst ` set m" unfolding ks by (rule image_eqI [rotated]) simp
  qed
  have 4: "map fst m = map fst [it \<leftarrow> zip ?ps result. snd it \<noteq> []]" if "distinct ?ps"
    using keys pf(4) [OF that] by simp
  show ?thesis
    by (rule exI [of _ result]) (simp add: res(2) len 1 2 3 4)
qed

theorem gather_data_keys_witness:
  "fst (gather_data ex_env [] ex_object CPU 2592000000000 1800000000) = Inr [(''p1'', [d05, d07])]
   \<and> batch_result ex_env [] ex_object CPU 2592000000000 1800000000 = Inr [[ex_series], []]
   \<and> distinct (pods ex_object)
   \<and> map fst [(''p1'', [d05, d07])] = map fst [it \<leftarrow> zip (pods ex_object) [[ex_series], []]. snd it \<noteq> []]
   \<and> pods ex_object ! 0 \<in> fst ` set [(''p1'', [d05, d07])]
   \<and> pods ex_object ! 1 \<notin> fst ` set [(''p1'', [d05, d07])]"
proof -
  let ?m = "[(''p1'', [d05, d07])]"
  have g: "gather_data ex_env [] ex_object CPU 2592000000000 1800000000 =
      (Inr ?m, snd (gather_data ex_env [] ex_object CPU 2592000000000 1800000000))"
    using ex_gather by (simp add: prod_eq_iff)
  have d: "distinct (pods ex_object)" by (simp add: ex_object_def)
  from gather_data_keys [OF g] obtain result where
    r: "batch_result ex_env [] ex_object CPU 2592000000000 1800000000 = Inr result"
      "\<forall>i<length (pods ex_object). pods ex_object ! i \<notin> set (drop (Suc i) (pods ex_object)) \<longrightarrow>
        (pods ex_object ! i \<in> fst ` set ?m \<longleftrightarrow> result ! i \<noteq> [])"
      "distinct (pods ex_object) \<longrightarrow>
        map fst ?m = map fst [it \<leftarrow> zip (pods ex_object) result. snd it \<noteq> []]"
    by blast
  from r(1) have result: "result = [[ex_series], []]" by (simp add: ex_batch)
  have "pods ex_object ! 0 \<in> fst ` set ?m \<longleftrightarrow> result ! 0 \<noteq> []"
    using r(2) [rule_format, of 0] by (simp add: ex_object_def)
  moreover have "pods ex_object ! 1 \<in> fst ` set ?m \<longleftrightarrow> result ! 1 \<noteq> []"
    using r(2) [rule_format, of 1] by (simp add: ex_object_def)
  ultimately show ?thesis using r(3) d ex_gather ex_batch unfolding result by simp
qed

text \<open>
  C2. Called with a resource type that is neither CPU nor Memory, \<open>gather_data\<close> fails
  with the ValueError for an unknown resource type (the InvalidResourceType of the
  specification), whatever the object, the period and the timeframe, and has issued no
  range query.
\<close>

theorem gather_data_unknown_resource:
  "gather_data env order object (Unknown r) period timeframe =
     (Inl (ValueError (''Unknown resource type: '' @ r)), [])"
  by (simp add: gather_data_def)

theorem gather_data_unknown_resource_witness:
  "gather_data ex_env [] ex_object (Unknown ''gpu'') 2592000000000 1800000000 =
     (Inl (ValueError ''Unknown resource type: gpu''), [])"
  using gather_data_unknown_resource [of ex_env "[]" ex_object "''gpu''" 2592000000000 1800000000]
  by simp

text \<open>
  C3. For an object without pods and the resource type CPU or Memory, \<open>gather_data\<close>
  returns the empty mapping and issues no range query.
\<close>

theorem gather_data_no_pods:
  assumes "pods object = []" and "resource = CPU \<or> resource = Memory"
  shows "gather_data env order object resource period timeframe = (Inr [], [])"
  using assms
  by (auto simp: gather_data_def batch_result_def batch_requests_def range_requests_def
      asyncio_gather_Nil reshape_def empty_for_all_def)

theorem gather_data_no_pods_witness:
  "gather_data ex_env [] (ex_object\<lparr>pods := []\<rparr>) Memory 2592000000000 1800000000 = (Inr [], [])"
  using gather_data_no_pods [of "ex_object\<lparr>pods := []\<rparr>" Memory ex_env "[]" 2592000000000 1800000000]
  by simp

text \<open>
  C4, as stated, ends with the scenario: values 0.5 and 0.7 for p1 and an empty result for
  p2 are said to yield the mapping of p1 to [0.5, 0.7] and of p2 to the empty sequence.
  The code returns the mapping with p1 alone.
\<close>

theorem gather_data_values_counterexample:
  "fst (gather_data ex_env [] ex_object CPU 2592000000000 1800000000) = Inr [(''p1'', [d05, d07])]
   \<and> fst (gather_data ex_env [] ex_object CPU 2592000000000 1800000000)
        \<noteq> Inr [(''p1'', [d05, d07]), (''p2'', [])]"
  by (simp add: ex_gather)

text \<open>
  C4, amended. In a successful call, for every pod whose backend result is not empty (for a
  name listed several times: the result of its last occurrence), the sequence returned for
  that pod is the \<open>Decimal\<close> of each value of the \<open>values\<close> array of the first series, in
  the order of the array, the timestamps dropped. In the scenario the mapping returned is
  p1 with [0.5, 0.7]; p2 is not in it.
\<close>

theorem gather_data_values:
  assumes "gather_data env order object resource period timeframe = (Inr m, tr)"
    and "batch_result env order object resource period timeframe = Inr result"
    and "i < length (pods object)"
    and "pods object ! i \<notin> set (drop (Suc i) (pods object))"
    and "result ! i = s # rest"
  shows "\<exists>xs. map_of m (pods object ! i) = Some xs \<and>
           list_all2 (\<lambda>x tv. Decimal env (snd tv) = Inr x) xs (values_of s)"
proof -
  let ?ps = "pods object"
  from gather_data_Inr [OF assms(1)] assms(2) have
    res: "resource = CPU \<or> resource = Memory" "reshape (Decimal env) ?ps result = Inr m"
    by auto
  have len: "length result = length ?ps" using batch_result_length assms(2) res(1) by blast
  define pr where "pr = fold (\<lambda>(p, r). AList.update p r) (zip ?ps result) []"
  note pf = pod_results_facts [OF len, folded pr_def]
  have "(?ps ! i, s # rest) \<in> set pr"
    using pf(3) [OF assms(3,4)] assms(5) by simp
  then have mem: "(?ps ! i, s # rest) \<in> set [it \<leftarrow> pr. snd it \<noteq> []]" by simp
  have "distinct (map fst [it \<leftarrow> pr. snd it \<noteq> []])"
    using pf(1) by (rule distinct_map_filter)
  from list_all2_lookup [OF reshape_Inr [OF res(2) len, folded pr_def] this mem]
  obtain xs where "map_of m (?ps ! i) = Some xs" "decimals (Decimal env) (values_of s) = Inr xs"
    by auto
  then show ?thesis by (auto simp: decimals_Inr_iff)
qed

theorem gather_data_values_witness:
  "fst (gather_data ex_env [] ex_object CPU 2592000000000 1800000000) = Inr [(''p1'', [d05, d07])]
   \<and> batch_result ex_env [] ex_object CPU 2592000000000 1800000000 = Inr [[ex_series], []]
   \<and> pods ex_object ! 0 = ''p1''
   \<and> map_of [(''p1'', [d05, d07])] ''p1'' = Some [d05, d07]
   \<and> list_all2 (\<lambda>x tv. Decimal ex_env (snd tv) = Inr x) [d05, d07] (values_of ex_series)
   \<and> map snd (values_of ex_series) = [''0.5'', ''0.7'']"
proof -
  let ?m = "[(''p1'', [d05, d07])]"
  have g: "gather_data ex_env [] ex_object CPU 2592000000000 1800000000 =
      (Inr ?m, snd (gather_data ex_env [] ex_object CPU 2592000000000 1800000000))"
    using ex_gather by (simp add: prod_eq_iff)
  have i: "0 < length (pods ex_object)"
    "pods ex_object ! 0 \<notin> set (drop (Suc 0) (pods ex_object))"
    "[[ex_series], []] ! 0 = ex_series # []"
    by (simp_all add: ex_object_def)
  from gather_data_values [OF g ex_batch i] obtain xs where
    xs: "map_of ?m (pods ex_object ! 0) = Some xs"
       "list_all2 (\<lambda>x tv. Decimal ex_env (snd tv) = Inr x) xs (values_of ex_series)"
    by blast
  from xs(1) have "xs = [d05, d07]"
    by (simp add: ex_object_def)
  with xs ex_gather ex_batch show ?thesis by (simp add: ex_object_def ex_series_def)
qed

text \<open>
  C5. When the batch result is the empty list, the mapping returned gives every pod of the
  list the empty sequence, whatever the \<open>Decimal\<close> constructor does: no value is
  converted. In \<open>gather_data\<close> an empty batch result leads to that mapping also when every
  conversion would raise.
\<close>

theorem empty_batch_result:
  "reshape (dec :: string \<Rightarrow> exn + 'd) ps ([] :: 't series list list) = Inr (empty_for_all ps)
   \<and> fst ` set (empty_for_all ps :: (string, 'd list) dict) = set ps
   \<and> (\<forall>pod \<in> set ps. map_of (empty_for_all ps :: (string, 'd list) dict) pod = Some [])
   \<and> ((resource = CPU \<or> resource = Memory)
        \<and> batch_result (env :: ('t, 'd) gather_env) order object resource period timeframe = Inr [] \<longrightarrow>
        fst (gather_data env order object resource period timeframe) = Inr (empty_for_all (pods object))
        \<and> fst (gather_data (env\<lparr>Decimal := \<lambda>v. Inl e\<rparr>) order object resource period timeframe)
            = Inr (empty_for_all (pods object)))"
proof -
  have 1: "reshape dec ps ([] :: 't series list list) = Inr (empty_for_all ps)"
    by (simp add: reshape_def)
  have 2: "fst ` set (empty_for_all ps :: (string, 'd list) dict) = set ps"
    unfolding empty_for_all_def by (simp add: empty_for_all_keys)
  have 3: "\<forall>pod \<in> set ps. map_of (empty_for_all ps :: (string, 'd list) dict) pod = Some []"
    unfolding empty_for_all_def by (simp add: empty_for_all_fold)
  have 4: "fst (gather_data env order object resource period timeframe) = Inr (empty_for_all (pods object))
        \<and> fst (gather_data (env\<lparr>Decimal := \<lambda>v. Inl e\<rparr>) order object resource period timeframe)
            = Inr (empty_for_all (pods object))"
    if "resource = CPU \<or> resource = Memory"
      "batch_result env order object resource period timeframe = Inr []"
  proof -
    have "batch_result (env\<lparr>Decimal := \<lambda>v. Inl e\<rparr>) order object resource period timeframe = Inr []"
      using that(2) by (cases resource) (simp_all add: batch_result_def batch_requests_def)
    with that show ?thesis
      by (auto simp: gather_data_def reshape_def)
  qed
  show ?thesis using 1 2 3 4 by blast
qed

theorem empty_batch_result_witness:
  "reshape (\<lambda>v. Inl (ValueError v) :: exn + decimal) [''p1'', ''p2''] ([] :: nat series list list)
     = Inr [(''p1'', []), (''p2'', [])]
   \<and> map_of (empty_for_all [''p1'', ''p2''] :: (string, decimal list) dict) ''p1'' = Some []
   \<and> map_of (empty_for_all [''p1'', ''p2''] :: (string, decimal list) dict) ''p2'' = Some []
   \<and> batch_result ex_env [] (ex_object\<lparr>pods := []\<rparr>) CPU 2592000000000 1800000000 = Inr []
   \<and> fst (gather_data ex_env [] (ex_object\<lparr>pods := []\<rparr>) CPU 2592000000000 1800000000) = Inr []"
proof -
  have b: "batch_result ex_env [] (ex_object\<lparr>pods := []\<rparr>) CPU 2592000000000 1800000000 = Inr []"
    by (simp add: ex_gather_defs)
  show ?thesis
    using empty_batch_result [where dec = "\<lambda>v. Inl (ValueError v) :: exn + decimal"
        and ps = "[''p1'', ''p2'']" and resource = CPU and env = ex_env and order = "[]"
        and object = "ex_object\<lparr>pods := []\<rparr>" and period = 2592000000000
        and timeframe = 1800000000 and e = "ValueError []"] b
    by (simp add: empty_for_all_def)
qed

text \<open>
  C6, as stated, holds for every timeframe: the step is the floor of the seconds over 60,
  and "0m" below one minute. A \<open>timedelta\<close> can be negative. For minus 30 seconds, which
  is under one minute, the step is "-1m"; for minus half a second the step is "0m",
  while the floor of the seconds over 60 is -1.
\<close>

theorem step_counterexample:
  "(- 30000000 :: int) < 60000000 \<and> step_of (- 30000000) = ''-1m'' \<and> step_of (- 30000000) \<noteq> ''0m''
   \<and> step_of (- 500000) = ''0m'' \<and> str_int ((- 500000) div 60000000) @ ''m'' = ''-1m''"
  by (simp add: step_of_def int_total_seconds_def str_int_def str_nat.simps digit_char_def)

text \<open>
  C6, amended. For every timeframe that is not negative, the step of each range query of
  the batch is the floor of the timeframe in seconds over 60 (the timeframe in
  microseconds over 60000000), printed in decimal and followed by "m"; for every such
  timeframe under one minute it is "0m".
\<close>

theorem step_of_nonnegative_timeframe:
  assumes "0 \<le> timeframe"
    and "req \<in> set (batch_requests env object resource period timeframe)"
  shows "step req = str_int (timeframe div 60000000) @ ''m''
         \<and> (timeframe < 60000000 \<longrightarrow> step req = ''0m'')"
proof -
  have "int_total_seconds timeframe div 60 = timeframe div (1000000 * 60)"
    using assms(1) by (simp add: int_total_seconds_def zdiv_zmult2_eq)
  then have s: "step req = str_int (timeframe div 60000000) @ ''m''"
    using step_batch_requests [OF assms(2)] by (simp add: step_of_def)
  moreover have "step req = ''0m''" if "timeframe < 60000000"
    using s assms(1) that by (simp add: str_int_0)
  ultimately show ?thesis by simp
qed

theorem step_of_nonnegative_timeframe_witness:
  "(0::int) \<le> 59999999 \<and> (59999999::int) < 60000000
   \<and> length (batch_requests ex_env ex_object CPU 2592000000000 59999999) = 2
   \<and> step (batch_requests ex_env ex_object CPU 2592000000000 59999999 ! 0) = ''0m''
   \<and> step (batch_requests ex_env ex_object CPU 2592000000000 1800000000 ! 1) = ''30m''"
proof -
  have l: "length (batch_requests ex_env ex_object CPU 2592000000000 tf) = 2" for tf
    by (simp add: length_batch_requests ex_object_def)
  have "step (batch_requests ex_env ex_object CPU 2592000000000 59999999 ! 0) = ''0m''"
    using step_of_nonnegative_timeframe
      [of 59999999 "batch_requests ex_env ex_object CPU 2592000000000 59999999 ! 0"
          ex_env ex_object CPU 2592000000000] l
    by (simp add: str_int_0)
  moreover have "step (batch_requests ex_env ex_object CPU 2592000000000 1800000000 ! 1) = ''30m''"
    using step_of_nonnegative_timeframe
      [of 1800000000 "batch_requests ex_env ex_object CPU 2592000000000 1800000000 ! 1"
          ex_env ex_object CPU 2592000000000] l
    by (simp add: str_int_def str_nat.simps digit_char_def)
  ultimately show ?thesis using l by simp
qed

text \<open>
  C9. When a range query of the batch fails, \<open>gather_data\<close> returns no mapping: it fails,
  with the exception of a query of the batch that failed, in whatever order the queries
  complete.
\<close>

theorem gather_data_query_failure:
  assumes "resource = CPU \<or> resource = Memory"
    and "req \<in> set (batch_requests env object resource period timeframe)"
    and "custom_query_range env req = Inl e0"
  shows "\<exists>e req'. fst (gather_data env order object resource period timeframe) = Inl e
           \<and> req' \<in> set (batch_requests env object resource period timeframe)
           \<and> custom_query_range env req' = Inl e"
proof -
  let ?reqs = "batch_requests env object resource period timeframe"
  have "Inl e0 \<in> set (map (custom_query_range env) ?reqs)"
    using assms(2,3) by (metis image_eqI list.set_map)
  from asyncio_gather_fails [OF this, of order] obtain e where
    e: "batch_result env order object resource period timeframe = Inl e"
       "Inl e \<in> set (map (custom_query_range env) ?reqs)"
    by (auto simp: batch_result_def)
  from e(2) obtain req' where "req' \<in> set ?reqs" "custom_query_range env req' = Inl e"
    by auto
  moreover have "fst (gather_data env order object resource period timeframe) = Inl e"
    using assms(1) e(1) by (auto simp: gather_data_def)
  ultimately show ?thesis by blast
qed

theorem gather_data_query_failure_witness:
  "batch_requests ex_env_failing ex_object CPU 2592000000000 1800000000 ! 1
     \<in> set (batch_requests ex_env_failing ex_object CPU 2592000000000 1800000000)
   \<and> custom_query_range ex_env_failing
       (batch_requests ex_env_failing ex_object CPU 2592000000000 1800000000 ! 1)
       = Inl (LibraryError ''ReadTimeout'' ''timed out'')
   \<and> fst (gather_data ex_env_failing [] ex_object CPU 2592000000000 1800000000)
       = Inl (LibraryError ''ReadTimeout'' ''timed out'')"
proof -
  let ?reqs = "batch_requests ex_env_failing ex_object CPU 2592000000000 1800000000"
  have q: "?reqs ! 1 \<in> set ?reqs"
    "custom_query_range ex_env_failing (?reqs ! 1) = Inl (LibraryError ''ReadTimeout'' ''timed out'')"
    by (simp_all add: ex_gather_defs)
  have all: "custom_query_range ex_env_failing req' = Inl e \<Longrightarrow>
      e = LibraryError ''ReadTimeout'' ''timed out''" for req' e
    by (simp add: ex_env_failing_def split: if_splits)
  have c: "CPU = CPU \<or> CPU = Memory" by simp
  from gather_data_query_failure [OF c q, of "[]"] obtain e req' where
    e: "fst (gather_data ex_env_failing [] ex_object CPU 2592000000000 1800000000) = Inl e"
       "custom_query_range ex_env_failing req' = Inl e"
    by blast
  from all [OF e(2)] e(1) q show ?thesis by blast
qed

end
